theory Spec2Isabelle
  imports Main
begin

section \<open>The job board's data layer (job\_board/models.py)\<close>

text \<open>
  A shallow embedding of the three pieces of logic in \<^verbatim>\<open>models.py\<close>: the
  \<^verbatim>\<open>post_save\<close> receiver \<^verbatim>\<open>generate_site_config\<close> and the methods
  \<^verbatim>\<open>Job.activate\<close>, \<^verbatim>\<open>Job.expire\<close> and \<^verbatim>\<open>Job.format_country\<close>.

  The methods mutate \<^verbatim>\<open>self\<close> and talk to the database and the mail backend, so each
  one takes the instance and the state of the outside world and returns what the call
  produced (a value or a raised exception), the instance after the call and the world
  after the call.
\<close>

subsection \<open>Entities\<close>

type_synonym datetime = int

text \<open>A \<^verbatim>\<open>django.contrib.sites\<close> Site: primary key, domain and display name.\<close>

record site_row =
  site_id :: nat
  domain :: string
  site_name :: string

text \<open>\<^verbatim>\<open>class Country\<close>: a single \<^verbatim>\<open>name\<close> column.\<close>

record country_row =
  country_name :: string

text \<open>
  \<^verbatim>\<open>class Job\<close>. Foreign keys that the methods follow (\<^verbatim>\<open>site\<close>, \<^verbatim>\<open>country\<close>)
  hold the related row; the others (\<^verbatim>\<open>category\<close>, \<^verbatim>\<open>company\<close>, \<^verbatim>\<open>user\<close>) hold the
  key. \<^verbatim>\<open>country\<close>, \<^verbatim>\<open>paid_at\<close> and \<^verbatim>\<open>expired_at\<close> are the nullable columns. A value
  of this type is an instance bound to a row of the job table: \<open>job_id\<close> is its primary
  key.
\<close>

record job =
  job_id :: nat
  created_at :: datetime
  title :: string
  description :: string
  application_info :: string
  location :: string
  email :: string
  category :: nat
  country :: "country_row option"
  company :: nat
  paid_at :: "datetime option"
  expired_at :: "datetime option"
  site :: site_row
  user :: nat

text \<open>\<^verbatim>\<open>class SiteConfig\<close>; \<open>sc_site\<close> is the foreign key to the Site.\<close>

record siteconfig =
  expire_after :: int
  admin_email :: string
  sc_site :: nat

text \<open>The four positional arguments of \<^verbatim>\<open>send_mail\<close>.\<close>

record mail =
  subject :: string
  body :: string
  from_email :: string
  recipient_list :: "string list"

subsection \<open>The outside world\<close>

text \<open>
  What the code can observe of its collaborators, in the order it touches them: a query for
  the first SiteConfig of a site, a write of a job row, a message handed to the mail
  backend.
\<close>

datatype event =
  QueryFirstSiteConfig nat
  | SaveJob job
  | SendMail mail

text \<open>
  \<open>jobs\<close> is the job table, by primary key. \<open>siteconfigs\<close> is the SiteConfig table in
  primary-key order, which is insertion order. \<open>outbox\<close> holds the messages the backend
  delivered and \<open>trace\<close> every event, oldest first. \<open>render_to_string\<close> stands for the
  template loader (the template file is not part of the sources). The mail backend is
  the framework's SMTP backend: \<open>smtp_up\<close> tells whether a connection to the server can be
  opened, \<open>smtp_ok\<close> whether the server then accepts a given message.
  \<open>default_from_email\<close> is the setting \<^verbatim>\<open>DEFAULT_FROM_EMAIL\<close>.
\<close>

record world =
  jobs :: "nat \<Rightarrow> job option"
  siteconfigs :: "siteconfig list"
  outbox :: "mail list"
  trace :: "event list"
  render_to_string :: "string \<Rightarrow> job \<Rightarrow> string"
  smtp_up :: bool
  smtp_ok :: "mail \<Rightarrow> bool"
  default_from_email :: string

datatype error =
  AttributeError
  | MultipleObjectsReturned
  | BadHeaderError
  | SocketError
  | SMTPException

datatype 'a outcome =
  Returned 'a
  | Raised error

subsection \<open>Framework calls used by the code\<close>

text \<open>\<^verbatim>\<open>self.save()\<close> on a bound instance: the row with its key takes the instance's
  field values.\<close>

definition save :: "job \<Rightarrow> world \<Rightarrow> world" where
  "save j w = w\<lparr>jobs := (jobs w)(job_id j := Some j), trace := trace w @ [SaveJob j]\<rparr>"

text \<open>
  The creation of a Job, that is the first \<^verbatim>\<open>save()\<close> of a new instance (as
  \<^verbatim>\<open>Job.objects.create\<close> does): the row is inserted under the key \<open>k\<close> that the database
  assigns, and because \<^verbatim>\<open>created_at\<close> is declared with \<^verbatim>\<open>auto_now_add=True\<close> the
  insert puts the current time into \<open>created_at\<close>, whatever the instance held there.
\<close>

definition create :: "datetime \<Rightarrow> nat \<Rightarrow> job \<Rightarrow> world \<Rightarrow> job \<times> world" where
  "create now k j w =
     (let j1 = j\<lparr>job_id := k, created_at := now\<rparr>
      in (j1, w\<lparr>jobs := (jobs w)(k := Some j1), trace := trace w @ [SaveJob j1]\<rparr>))"

text \<open>\<^verbatim>\<open>site.siteconfig_set.first()\<close>: the related rows in key order, the first one or
  \<^verbatim>\<open>None\<close>.\<close>

definition siteconfig_set :: "site_row \<Rightarrow> world \<Rightarrow> siteconfig list" where
  "siteconfig_set s w = filter (\<lambda>c. sc_site c = site_id s) (siteconfigs w)"

definition siteconfig_set_first :: "site_row \<Rightarrow> world \<Rightarrow> siteconfig option \<times> world" where
  "siteconfig_set_first s w =
     (case siteconfig_set s w of
        [] \<Rightarrow> (None, w\<lparr>trace := trace w @ [QueryFirstSiteConfig (site_id s)]\<rparr>)
      | c # _ \<Rightarrow> (Some c, w\<lparr>trace := trace w @ [QueryFirstSiteConfig (site_id s)]\<rparr>))"

text \<open>A header value with a line feed or a carriage return is refused when the message
  is built.\<close>

definition has_line_break :: "string \<Rightarrow> bool" where
  "has_line_break s = (CHR 0x0A \<in> set s \<or> CHR 0x0D \<in> set s)"

definition bad_header :: "mail \<Rightarrow> bool" where
  "bad_header m =
     (has_line_break (subject m) \<or> has_line_break (from_email m)
      \<or> list_ex has_line_break (recipient_list m))"

text \<open>
  \<^verbatim>\<open>send_mail(subject, message, from_email, recipient_list, fail_silently)\<close>, in the
  order the framework proceeds. An empty sender is replaced by \<^verbatim>\<open>DEFAULT_FROM_EMAIL\<close>.
  If no recipient is a non-empty string, nothing is handed to the backend and 0 is
  returned. Otherwise the message is handed to the backend (the event \<open>SendMail\<close>). The
  backend opens the connection; if that fails it gives up, raising unless
  \<^verbatim>\<open>fail_silently\<close> is set (it then returns \<^verbatim>\<open>None\<close>). It builds the message, which
  raises \<^verbatim>\<open>BadHeaderError\<close> for a line break in the subject or in an address, whatever
  \<^verbatim>\<open>fail_silently\<close> is. It transmits the message; a refusal by the server is raised
  unless \<^verbatim>\<open>fail_silently\<close> is set. The value returned is the number of messages
  delivered.
\<close>

definition send_mail ::
  "string \<Rightarrow> string \<Rightarrow> string \<Rightarrow> string list \<Rightarrow> bool \<Rightarrow> world
     \<Rightarrow> nat option outcome \<times> world" where
  "send_mail subj msg sender rcpts fail_silently w =
     (let m = \<lparr>subject = subj, body = msg,
                from_email = (if sender = [] then default_from_email w else sender),
                recipient_list = rcpts\<rparr>;
          w' = w\<lparr>trace := trace w @ [SendMail m]\<rparr>
      in if filter (\<lambda>r. r \<noteq> []) rcpts = [] then (Returned (Some 0), w)
         else if \<not> smtp_up w then
           (if fail_silently then (Returned None, w') else (Raised SocketError, w'))
         else if bad_header m then (Raised BadHeaderError, w')
         else if smtp_ok w m then (Returned (Some 1), w'\<lparr>outbox := outbox w @ [m]\<rparr>)
         else if fail_silently then (Returned (Some 0), w')
         else (Raised SMTPException, w'))"

text \<open>
  \<^verbatim>\<open>SiteConfig.objects.get_or_create(site=site, admin_email=e)\<close>: both keyword arguments
  are lookup keys. One matching row is returned as it is, no matching row makes a new one
  from the keys and the column defaults (\<^verbatim>\<open>expire_after = 30\<close>), several matching rows
  raise. The boolean tells whether a row was created.
\<close>

definition get_or_create ::
  "site_row \<Rightarrow> string \<Rightarrow> world \<Rightarrow> (siteconfig \<times> bool) outcome \<times> world" where
  "get_or_create s e w =
     (case filter (\<lambda>c. sc_site c = site_id s \<and> admin_email c = e) (siteconfigs w) of
        [] \<Rightarrow>
          (let c = \<lparr>expire_after = 30, admin_email = e, sc_site = site_id s\<rparr>
           in (Returned (c, True), w\<lparr>siteconfigs := siteconfigs w @ [c]\<rparr>))
      | [c] \<Rightarrow> (Returned (c, False), w)
      | _ # _ # _ \<Rightarrow> (Raised MultipleObjectsReturned, w))"

subsection \<open>The receiver \<^verbatim>\<open>generate_site_config\<close>\<close>

text \<open>
  The keyword arguments the receiver reads: \<^verbatim>\<open>created\<close> and \<^verbatim>\<open>instance\<close>, either of
  which may be absent (\<^verbatim>\<open>kwargs.get\<close>).
\<close>

record kwargs =
  kw_created :: "bool option"
  kw_instance :: "site_row option"

definition generate_site_config :: "kwargs \<Rightarrow> world \<Rightarrow> unit outcome \<times> world" where
  "generate_site_config kw w =
     (if (case kw_created kw of None \<Rightarrow> True | Some b \<Rightarrow> b) then
        (case kw_instance kw of
           None \<Rightarrow> (Raised AttributeError, w)
         | Some s \<Rightarrow>
             (case get_or_create s (''admin@'' @ domain s) w of
                (Raised e, w') \<Rightarrow> (Raised e, w')
              | (Returned _, w') \<Rightarrow> (Returned (), w')))
      else (Returned (), w))"

subsection \<open>The methods of \<^verbatim>\<open>Job\<close>\<close>

text \<open>The first argument of \<open>activate\<close> and \<open>expire\<close> is the value \<^verbatim>\<open>timezone.now()\<close>
  returns during the call.\<close>

definition activate :: "datetime \<Rightarrow> job \<Rightarrow> world \<Rightarrow> bool outcome \<times> job \<times> world" where
  "activate now j w =
     (if paid_at j = None then
        (let j1 = j\<lparr>paid_at := Some now\<rparr>;
             w1 = save j1 w
         in (Returned True, j1, w1))
      else (Returned False, j, w))"

text \<open>
  \<^verbatim>\<open>context\<close> holds a reference to \<^verbatim>\<open>self\<close>, so the template is rendered from the
  instance as it is when \<^verbatim>\<open>render_to_string\<close> runs, after \<^verbatim>\<open>expired_at\<close> was
  assigned. The arguments of \<^verbatim>\<open>send_mail\<close> are evaluated left to right; the third one,
  \<^verbatim>\<open>sc.admin_email\<close>, raises when \<^verbatim>\<open>sc\<close> is \<^verbatim>\<open>None\<close>.
\<close>

definition expire :: "datetime \<Rightarrow> job \<Rightarrow> world \<Rightarrow> bool outcome \<times> job \<times> world" where
  "expire now j w =
     (if paid_at j \<noteq> None \<and> expired_at j = None then
        (let (sc, w1) = siteconfig_set_first (site j) w;
             j1 = j\<lparr>expired_at := Some now\<rparr>;
             w2 = save j1 w1;
             subj = ''Your '' @ site_name (site j1) @ '' job has expired'';
             msg = render_to_string w2 ''job_board/emails/expired.txt'' j1
         in (case sc of
               None \<Rightarrow> (Raised AttributeError, j1, w2)
             | Some c \<Rightarrow>
                 (case send_mail subj msg (admin_email c) [email j1] True w2 of
                    (Raised e, w3) \<Rightarrow> (Raised e, j1, w3)
                  | (Returned _, w3) \<Rightarrow> (Returned True, j1, w3))))
      else (Returned False, j, w))"

text \<open>A model instance is always true in a condition; a string is true when it is not
  empty.\<close>

definition format_country :: "job \<Rightarrow> string" where
  "format_country j =
     (case country j of
        Some c \<Rightarrow> country_name c
      | None \<Rightarrow> (if location j \<noteq> [] then ''Anywhere*'' else ''Anywhere''))"

subsection \<open>Sequences of lifecycle calls\<close>

datatype call =
  Activate datetime
  | Expire datetime

text \<open>One call by a caller that goes on whatever the call returned or raised.\<close>

fun step :: "call \<Rightarrow> job \<times> world \<Rightarrow> job \<times> world" where
  "step (Activate t) (j, w) = snd (activate t j w)"
| "step (Expire t) (j, w) = snd (expire t j w)"

fun run :: "call list \<Rightarrow> job \<times> world \<Rightarrow> job \<times> world" where
  "run [] s = s"
| "run (c # cs) s = run cs (step c s)"

datatype phase = Unpaid | Paid | Expired

definition phase_of :: "job \<Rightarrow> phase" where
  "phase_of j =
     (if paid_at j = None then Unpaid
      else if expired_at j = None then Paid
      else Expired)"

fun lifecycle_next :: "phase \<Rightarrow> phase \<Rightarrow> bool" where
  "lifecycle_next Unpaid Paid = True"
| "lifecycle_next Paid Expired = True"
| "lifecycle_next _ _ = False"

subsection \<open>Sample data\<close>

definition site0 :: site_row where
  "site0 = \<lparr>site_id = 1, domain = ''example.com'', site_name = ''Example''\<rparr>"

definition job0 :: job where
  "job0 = \<lparr>job_id = 7, created_at = 100, title = ''Engineer'', description = ''Build'',
     application_info = ''Mail us'', location = ''EU timezone'', email = ''hr@corp.test'',
     category = 2, country = None, company = 3, paid_at = None, expired_at = None,
     site = site0, user = 4\<rparr>"

definition job_paid :: job where
  "job_paid = job0\<lparr>paid_at := Some 200\<rparr>"

definition job_expired :: job where
  "job_expired = job0\<lparr>paid_at := Some 200, expired_at := Some 300\<rparr>"

definition sc0 :: siteconfig where
  "sc0 = \<lparr>expire_after = 30, admin_email = ''admin@example.com'', sc_site = 1\<rparr>"

definition sc_other :: siteconfig where
  "sc_other = \<lparr>expire_after = 14, admin_email = ''ops@other.test'', sc_site = 2\<rparr>"

definition sc_edited :: siteconfig where
  "sc_edited = \<lparr>expire_after = 30, admin_email = ''jobs@example.com'', sc_site = 1\<rparr>"

definition render0 :: "string \<Rightarrow> job \<Rightarrow> string" where
  "render0 t j = t @ '':'' @ title j"

definition world0 :: world where
  "world0 = \<lparr>jobs = (\<lambda>k. if k = 7 then Some job0 else None),
     siteconfigs = [sc_other, sc0], outbox = [], trace = [],
     render_to_string = render0, smtp_up = True, smtp_ok = (\<lambda>m. True),
     default_from_email = ''webmaster@localhost''\<rparr>"

text \<open>The same world with a mail server that refuses every message.\<close>

definition world_smtp_down :: world where
  "world_smtp_down = world0\<lparr>smtp_ok := (\<lambda>m. False)\<rparr>"

text \<open>A world in which the sample site has no SiteConfig.\<close>

definition world_no_config :: world where
  "world_no_config = world0\<lparr>siteconfigs := [sc_other]\<rparr>"

text \<open>A world in which the admin changed the address of the sample site's SiteConfig.\<close>

definition world_edited :: world where
  "world_edited = world0\<lparr>siteconfigs := [sc_other, sc_edited]\<rparr>"

text \<open>A world in which the sample site's SiteConfig has an empty address.\<close>

definition sc_blank :: siteconfig where
  "sc_blank = \<lparr>expire_after = 30, admin_email = [], sc_site = 1\<rparr>"

definition world_blank_admin :: world where
  "world_blank_admin = world0\<lparr>siteconfigs := [sc_other, sc_blank]\<rparr>"

text \<open>A paid job on a site whose name has a line feed in it, and one without a contact
  address.\<close>

definition job_two_lines :: job where
  "job_two_lines = job_paid\<lparr>site := site0\<lparr>site_name := [CHR ''E'', CHR 0x0A, CHR ''x'']\<rparr>\<rparr>"

definition job_no_contact :: job where
  "job_no_contact = job_paid\<lparr>email := []\<rparr>"

text \<open>The message \<open>expire\<close> builds for the sample job in the sample world.\<close>

definition mail0 :: mail where
  "mail0 = \<lparr>subject = ''Your Example job has expired'',
     body = ''job_board/emails/expired.txt:Engineer'',
     from_email = ''admin@example.com'',
     recipient_list = [''hr@corp.test'']\<rparr>"

section \<open>Properties\<close>

subsection \<open>Activation\<close>

text \<open>
  C2. On a job whose \<open>paid_at\<close> is unset, \<open>activate\<close> returns true, the job's \<open>paid_at\<close> is
  the current time (a value, not null) and the job's row holds the updated job. On a job
  whose \<open>paid_at\<close> is set, \<open>activate\<close> returns false without raising, and the job, with
  its \<open>paid_at\<close>, and the world are as before.
\<close>

theorem activate_sets_paid_at_or_is_noop:
  "(paid_at j = None \<longrightarrow>
      (case activate now j w of (r, j', w') \<Rightarrow>
         r = Returned True \<and> paid_at j' = Some now \<and> jobs w' (job_id j') = Some j'))
   \<and> (paid_at j \<noteq> None \<longrightarrow>
      (case activate now j w of (r, j', w') \<Rightarrow>
         r = Returned False \<and> paid_at j' = paid_at j \<and> j' = j \<and> w' = w))"
  by (simp add: activate_def save_def Let_def)

theorem activate_sets_paid_at_or_is_noop_witness:
  "paid_at job0 = None
   \<and> fst (activate 500 job0 world0) = Returned True
   \<and> paid_at (fst (snd (activate 500 job0 world0))) = Some 500
   \<and> fst (activate 900 (fst (snd (activate 500 job0 world0)))
             (snd (snd (activate 500 job0 world0)))) = Returned False
   \<and> paid_at (fst (snd (activate 900 (fst (snd (activate 500 job0 world0)))
             (snd (snd (activate 500 job0 world0)))))) = Some 500"
  using activate_sets_paid_at_or_is_noop [of job0 500 world0]
    activate_sets_paid_at_or_is_noop [of "fst (snd (activate 500 job0 world0))" 900
      "snd (snd (activate 500 job0 world0))"]
  by (simp add: job0_def split: prod.splits)

subsection \<open>Expiration\<close>

text \<open>What \<open>expire\<close> does when its condition holds, written out once for the proofs
  below.\<close>

lemma expire_unfold:
  assumes "paid_at j \<noteq> None" and "expired_at j = None"
  shows "expire now j w =
    (let j1 = j\<lparr>expired_at := Some now\<rparr>;
         w2 = w\<lparr>jobs := (jobs w)(job_id j := Some j1),
                trace := trace w @ [QueryFirstSiteConfig (site_id (site j)), SaveJob j1]\<rparr>
     in case siteconfig_set (site j) w of
          [] \<Rightarrow> (Raised AttributeError, j1, w2)
        | c # _ \<Rightarrow>
            (let m = \<lparr>subject = ''Your '' @ site_name (site j) @ '' job has expired'',
                      body = render_to_string w ''job_board/emails/expired.txt'' j1,
                      from_email =
                        (if admin_email c = [] then default_from_email w else admin_email c),
                      recipient_list = [email j]\<rparr>;
                 w3 = w2\<lparr>trace := trace w2 @ [SendMail m]\<rparr>
             in if email j = [] then (Returned True, j1, w2)
                else if \<not> smtp_up w then (Returned True, j1, w3)
                else if bad_header m then (Raised BadHeaderError, j1, w3)
                else (Returned True, j1,
                      w3\<lparr>outbox := (if smtp_ok w m then outbox w @ [m] else outbox w)\<rparr>)))"
  using assms
  by (simp add: expire_def siteconfig_set_first_def send_mail_def save_def Let_def
      split: list.splits)

lemma expire_noop:
  "paid_at j = None \<or> expired_at j \<noteq> None \<Longrightarrow> expire now j w = (Returned False, j, w)"
  by (auto simp: expire_def)

text \<open>
  C3. On a job whose \<open>paid_at\<close> is unset, \<open>expire\<close> returns false, \<open>paid_at\<close> stays null
  and \<open>expired_at\<close> stays what it was (null, when it was null), and nothing is handed to
  the mail backend. On a job whose \<open>expired_at\<close> is set, \<open>expire\<close> returns false and
  nothing is handed to the mail backend. In both cases the job and the world are as
  before.
\<close>

theorem expire_refuses_unpaid_and_expired:
  "(paid_at j = None \<longrightarrow>
      (case expire now j w of (r, j', w') \<Rightarrow>
         r = Returned False \<and> paid_at j' = None \<and> expired_at j' = expired_at j
         \<and> (expired_at j = None \<longrightarrow> expired_at j' = None)
         \<and> trace w' = trace w \<and> outbox w' = outbox w \<and> j' = j \<and> w' = w))
   \<and> (expired_at j \<noteq> None \<longrightarrow>
      (case expire now j w of (r, j', w') \<Rightarrow>
         r = Returned False \<and> trace w' = trace w \<and> outbox w' = outbox w
         \<and> j' = j \<and> w' = w))"
  by (simp add: expire_noop)

theorem expire_refuses_unpaid_and_expired_witness:
  "paid_at job0 = None \<and> expire 400 job0 world0 = (Returned False, job0, world0)
   \<and> expired_at job0 = None
   \<and> expired_at job_expired \<noteq> None
   \<and> expire 400 job_expired world0 = (Returned False, job_expired, world0)"
  using expire_refuses_unpaid_and_expired [where j = job0 and now = 400 and w = world0]
    expire_refuses_unpaid_and_expired [where j = job_expired and now = 400 and w = world0]
  by (simp add: job0_def job_expired_def split: prod.splits)

text \<open>
  C9. On a paid, unexpired job whose site has no SiteConfig, \<open>expire\<close> raises
  \<^verbatim>\<open>AttributeError\<close> instead of returning a boolean. By then \<open>expired_at\<close> has been
  assigned and the row written: the job after the call carries the new \<open>expired_at\<close>, the
  job table holds that job, and no message reached the mail backend.
\<close>

theorem expire_without_siteconfig_raises:
  assumes "paid_at j \<noteq> None" and "expired_at j = None" and "siteconfig_set (site j) w = []"
  shows "case expire now j w of (r, j', w') \<Rightarrow>
           r = Raised AttributeError
           \<and> j' = j\<lparr>expired_at := Some now\<rparr>
           \<and> jobs w' (job_id j) = Some (j\<lparr>expired_at := Some now\<rparr>)
           \<and> trace w' = trace w @ [QueryFirstSiteConfig (site_id (site j)),
                                     SaveJob (j\<lparr>expired_at := Some now\<rparr>)]
           \<and> outbox w' = outbox w"
  using assms by (simp add: expire_unfold Let_def)

theorem expire_without_siteconfig_raises_witness:
  "paid_at job_paid \<noteq> None \<and> expired_at job_paid = None
   \<and> siteconfig_set (site job_paid) world_no_config = []
   \<and> fst (expire 400 job_paid world_no_config) = Raised AttributeError
   \<and> expired_at (fst (snd (expire 400 job_paid world_no_config))) = Some 400
   \<and> map_option expired_at (jobs (snd (snd (expire 400 job_paid world_no_config))) 7)
       = Some (Some 400)
   \<and> outbox (snd (snd (expire 400 job_paid world_no_config))) = []"
proof -
  have h: "paid_at job_paid \<noteq> None" "expired_at job_paid = None"
    "siteconfig_set (site job_paid) world_no_config = []"
    by (simp_all add: job_paid_def job0_def siteconfig_set_def world_no_config_def
        world0_def site0_def sc_other_def)
  show ?thesis
    using h expire_without_siteconfig_raises [OF h, where now = 400]
    by (simp add: job_paid_def job0_def world_no_config_def world0_def split: prod.splits)
qed

lemmas sample_data =
  site0_def job0_def job_paid_def job_expired_def job_two_lines_def job_no_contact_def
  sc0_def sc_other_def sc_edited_def sc_blank_def render0_def mail0_def
  world0_def world_smtp_down_def world_no_config_def world_edited_def world_blank_admin_def

lemmas expire_eval =
  expire_def siteconfig_set_first_def siteconfig_set_def send_mail_def save_def Let_def
  bad_header_def has_line_break_def

text \<open>
  C1 (as amended). Take a paid, unexpired job whose site has at least one SiteConfig,
  where the site's name, the job's contact address and the SiteConfig's admin address
  contain no line break and the two addresses are not empty. Then \<open>expire\<close> performs, in
  this order: the lookup of the site's first SiteConfig, the assignment of the current
  time to \<open>expired_at\<close>, the write of the job's row, and the hand-over of exactly one
  message to the mail backend, addressed to the job's contact address with that
  SiteConfig's admin address as sender. It returns true.
\<close>

theorem expire_order_of_effects:
  assumes "paid_at j \<noteq> None" and "expired_at j = None"
    and "siteconfig_set (site j) w = c # cs"
    and "\<not> has_line_break (site_name (site j))"
    and "email j \<noteq> []" and "\<not> has_line_break (email j)"
    and "admin_email c \<noteq> []" and "\<not> has_line_break (admin_email c)"
  shows "case expire now j w of (r, j', w') \<Rightarrow>
           r = Returned True
           \<and> j' = j\<lparr>expired_at := Some now\<rparr>
           \<and> jobs w' (job_id j) = Some j'
           \<and> (\<exists>m. trace w' = trace w @
                  [QueryFirstSiteConfig (site_id (site j)), SaveJob j', SendMail m]
                \<and> from_email m = admin_email c \<and> recipient_list m = [email j])"
  using assms
  by (simp add: expire_unfold Let_def bad_header_def has_line_break_def)

theorem expire_order_of_effects_witness:
  "paid_at job_paid \<noteq> None \<and> expired_at job_paid = None
   \<and> siteconfig_set (site job_paid) world0 = [sc0]
   \<and> \<not> has_line_break (site_name (site job_paid))
   \<and> email job_paid \<noteq> [] \<and> \<not> has_line_break (email job_paid)
   \<and> admin_email sc0 \<noteq> [] \<and> \<not> has_line_break (admin_email sc0)
   \<and> fst (expire 400 job_paid world0) = Returned True
   \<and> fst (snd (expire 400 job_paid world0)) = job_paid\<lparr>expired_at := Some 400\<rparr>
   \<and> jobs (snd (snd (expire 400 job_paid world0))) 7 = Some (job_paid\<lparr>expired_at := Some 400\<rparr>)
   \<and> length (trace (snd (snd (expire 400 job_paid world0)))) = 3"
proof -
  have h: "paid_at job_paid \<noteq> None" "expired_at job_paid = None"
    "siteconfig_set (site job_paid) world0 = sc0 # []"
    "\<not> has_line_break (site_name (site job_paid))"
    "email job_paid \<noteq> []" "\<not> has_line_break (email job_paid)"
    "admin_email sc0 \<noteq> []" "\<not> has_line_break (admin_email sc0)"
    by (simp_all add: job_paid_def job0_def siteconfig_set_def world0_def site0_def
        sc_other_def sc0_def has_line_break_def)
  have t: "trace world0 = []" "job_id job_paid = 7"
    by (simp_all add: world0_def job_paid_def job0_def)
  have "fst (expire 400 job_paid world0) = Returned True
      \<and> fst (snd (expire 400 job_paid world0)) = job_paid\<lparr>expired_at := Some 400\<rparr>
      \<and> jobs (snd (snd (expire 400 job_paid world0))) 7
          = Some (job_paid\<lparr>expired_at := Some 400\<rparr>)
      \<and> length (trace (snd (snd (expire 400 job_paid world0)))) = 3"
    using expire_order_of_effects [OF h, where now = 400] t
    by (auto simp add: case_prod_beta)
  then show ?thesis
    using h by simp
qed

lemma expire_job_paid_world0:
  "expire 400 job_paid world0 =
     (Returned True, job_paid\<lparr>expired_at := Some 400\<rparr>,
      world0\<lparr>jobs := (jobs world0)(7 := Some (job_paid\<lparr>expired_at := Some 400\<rparr>)),
             trace := [QueryFirstSiteConfig 1, SaveJob (job_paid\<lparr>expired_at := Some 400\<rparr>),
                       SendMail mail0],
             outbox := [mail0]\<rparr>)"
  by (simp add: expire_eval sample_data)

lemma expire_job_paid_no_config:
  "expire 400 job_paid world_no_config =
     (Raised AttributeError, job_paid\<lparr>expired_at := Some 400\<rparr>,
      world_no_config\<lparr>jobs := (jobs world_no_config)(7 := Some (job_paid\<lparr>expired_at := Some 400\<rparr>)),
             trace := [QueryFirstSiteConfig 1, SaveJob (job_paid\<lparr>expired_at := Some 400\<rparr>)]\<rparr>)"
  by (simp add: expire_eval sample_data)

lemma expire_job_two_lines:
  "fst (expire 400 job_two_lines world0) = Raised BadHeaderError
   \<and> jobs (snd (snd (expire 400 job_two_lines world0))) 7
       = Some (job_two_lines\<lparr>expired_at := Some 400\<rparr>)"
  by (simp add: expire_eval sample_data)

lemma expire_job_no_contact:
  "expire 400 job_no_contact world0 =
     (Returned True, job_no_contact\<lparr>expired_at := Some 400\<rparr>,
      world0\<lparr>jobs := (jobs world0)(7 := Some (job_no_contact\<lparr>expired_at := Some 400\<rparr>)),
             trace := [QueryFirstSiteConfig 1,
                       SaveJob (job_no_contact\<lparr>expired_at := Some 400\<rparr>)]\<rparr>)"
  by (simp add: expire_eval sample_data)

lemma expire_job_paid_blank_admin:
  "trace (snd (snd (expire 400 job_paid world_blank_admin))) =
     [QueryFirstSiteConfig 1, SaveJob (job_paid\<lparr>expired_at := Some 400\<rparr>),
      SendMail (mail0\<lparr>from_email := ''webmaster@localhost''\<rparr>)]"
  by (simp add: expire_eval sample_data)

text \<open>
  C1 as stated fails. With a SiteConfig present, the lookup is the first effect of the
  call, before the row is written, not the third. With no SiteConfig for the job's site,
  the call does not return true and hands nothing to the mail backend. With a line feed
  in the site's name the call raises after the row was written. With an empty contact
  address nothing is handed to the mail backend. With an empty admin address the sender
  is the default sender, not the SiteConfig's address.
\<close>

theorem expire_order_counterexample:
  "paid_at job_paid \<noteq> None \<and> expired_at job_paid = None
   \<and> trace (snd (snd (expire 400 job_paid world0))) =
       [QueryFirstSiteConfig 1,
        SaveJob (job_paid\<lparr>expired_at := Some 400\<rparr>),
        SendMail \<lparr>subject = ''Your Example job has expired'',
                  body = ''job_board/emails/expired.txt:Engineer'',
                  from_email = ''admin@example.com'',
                  recipient_list = [''hr@corp.test'']\<rparr>]
   \<and> trace (snd (snd (expire 400 job_paid world0))) \<noteq>
       [SaveJob (job_paid\<lparr>expired_at := Some 400\<rparr>),
        QueryFirstSiteConfig 1,
        SendMail \<lparr>subject = ''Your Example job has expired'',
                  body = ''job_board/emails/expired.txt:Engineer'',
                  from_email = ''admin@example.com'',
                  recipient_list = [''hr@corp.test'']\<rparr>]
   \<and> fst (expire 400 job_paid world_no_config) \<noteq> Returned True
   \<and> outbox (snd (snd (expire 400 job_paid world_no_config))) = []
   \<and> paid_at job_two_lines \<noteq> None \<and> expired_at job_two_lines = None
   \<and> fst (expire 400 job_two_lines world0) = Raised BadHeaderError
   \<and> jobs (snd (snd (expire 400 job_two_lines world0))) 7
       = Some (job_two_lines\<lparr>expired_at := Some 400\<rparr>)
   \<and> paid_at job_no_contact \<noteq> None \<and> expired_at job_no_contact = None
   \<and> trace (snd (snd (expire 400 job_no_contact world0))) =
       [QueryFirstSiteConfig 1, SaveJob (job_no_contact\<lparr>expired_at := Some 400\<rparr>)]
   \<and> siteconfig_set (site job_paid) world_blank_admin = [sc_blank]
   \<and> admin_email sc_blank = []
   \<and> trace (snd (snd (expire 400 job_paid world_blank_admin))) =
       [QueryFirstSiteConfig 1, SaveJob (job_paid\<lparr>expired_at := Some 400\<rparr>),
        SendMail \<lparr>subject = ''Your Example job has expired'',
                  body = ''job_board/emails/expired.txt:Engineer'',
                  from_email = ''webmaster@localhost'',
                  recipient_list = [''hr@corp.test'']\<rparr>]"
proof -
  have 1: "paid_at job_paid \<noteq> None \<and> expired_at job_paid = None
      \<and> paid_at job_two_lines \<noteq> None \<and> expired_at job_two_lines = None
      \<and> paid_at job_no_contact \<noteq> None \<and> expired_at job_no_contact = None"
    by (simp add: job_two_lines_def job_no_contact_def job_paid_def job0_def)
  have 2: "trace (snd (snd (expire 400 job_paid world0))) =
      [QueryFirstSiteConfig 1, SaveJob (job_paid\<lparr>expired_at := Some 400\<rparr>), SendMail mail0]"
    by (simp add: expire_job_paid_world0)
  have 3: "fst (expire 400 job_paid world_no_config) \<noteq> Returned True
      \<and> outbox (snd (snd (expire 400 job_paid world_no_config))) = []"
    by (simp add: expire_job_paid_no_config) (simp add: world_no_config_def world0_def)
  have 4: "trace (snd (snd (expire 400 job_no_contact world0))) =
      [QueryFirstSiteConfig 1, SaveJob (job_no_contact\<lparr>expired_at := Some 400\<rparr>)]"
    by (simp add: expire_job_no_contact)
  have 5: "siteconfig_set (site job_paid) world_blank_admin = [sc_blank]
      \<and> admin_email sc_blank = []"
    by (simp add: siteconfig_set_def job_paid_def job0_def world_blank_admin_def world0_def
        site0_def sc_other_def sc_blank_def)
  have 6: "mail0 = \<lparr>subject = ''Your Example job has expired'',
      body = ''job_board/emails/expired.txt:Engineer'',
      from_email = ''admin@example.com'', recipient_list = [''hr@corp.test'']\<rparr>"
    "mail0\<lparr>from_email := ''webmaster@localhost''\<rparr> =
      \<lparr>subject = ''Your Example job has expired'',
       body = ''job_board/emails/expired.txt:Engineer'',
       from_email = ''webmaster@localhost'', recipient_list = [''hr@corp.test'']\<rparr>"
    by (simp_all add: mail0_def)
  show ?thesis
    using 1 2 3 4 5 expire_job_two_lines expire_job_paid_blank_admin
    unfolding 6 by simp
qed

text \<open>
  C8 (as amended). Every message \<open>expire\<close> hands to the mail backend has the subject
  \<^verbatim>\<open>Your <site name> job has expired\<close> with the name of the job's site, the body rendered
  from the template \<^verbatim>\<open>job_board/emails/expired.txt\<close> with the job (as it is after the
  call) and the job's contact address as the only recipient. Its sender is the admin
  address of the site's first SiteConfig, or the default sender when that address is
  empty. A failure to deliver, be it the connection or the server's refusal, is never
  raised to the caller: the call returns true and the outbox is as it was. The only
  error of the hand-over that reaches the caller is the refusal of a line break in the
  subject or in an address.
\<close>

theorem expire_mail_contents:
  assumes "expire now j w = (r, j', w')"
    and "SendMail m \<in> set (drop (length (trace w)) (trace w'))"
  shows "subject m = ''Your '' @ site_name (site j) @ '' job has expired''
         \<and> body m = render_to_string w ''job_board/emails/expired.txt'' j'
         \<and> siteconfig_set (site j) w \<noteq> []
         \<and> from_email m =
             (if admin_email (hd (siteconfig_set (site j) w)) = [] then default_from_email w
              else admin_email (hd (siteconfig_set (site j) w)))
         \<and> recipient_list m = [email j]
         \<and> r \<noteq> Raised SMTPException \<and> r \<noteq> Raised SocketError
         \<and> (r = Returned True \<or> r = Raised BadHeaderError)
         \<and> (\<not> smtp_up w \<or> \<not> bad_header m \<longrightarrow> r = Returned True)
         \<and> outbox w' =
             (if smtp_up w \<and> \<not> bad_header m \<and> smtp_ok w m then outbox w @ [m] else outbox w)"
proof (cases "paid_at j \<noteq> None \<and> expired_at j = None")
  case False
  then have "expire now j w = (Returned False, j, w)"
    by (auto simp: expire_noop)
  with assms show ?thesis by simp
next
  case True
  show ?thesis
  proof (cases "siteconfig_set (site j) w")
    case Nil
    with True assms show ?thesis
      by (auto simp: expire_unfold Let_def)
  next
    case (Cons c cs)
    with True assms show ?thesis
      by (auto simp: expire_unfold Let_def split: if_splits)
  qed
qed

theorem expire_mail_contents_witness:
  "expire 400 job_paid world_smtp_down =
     (Returned True, job_paid\<lparr>expired_at := Some 400\<rparr>,
      snd (snd (expire 400 job_paid world_smtp_down)))
   \<and> SendMail mail0
       \<in> set (drop (length (trace world_smtp_down))
                 (trace (snd (snd (expire 400 job_paid world_smtp_down)))))
   \<and> \<not> smtp_ok world_smtp_down mail0
   \<and> from_email mail0 = admin_email sc0
   \<and> outbox (snd (snd (expire 400 job_paid world_smtp_down))) = []
   \<and> smtp_ok world0 mail0
   \<and> outbox (snd (snd (expire 400 job_paid world0))) = [mail0]"
proof -
  let ?w = "snd (snd (expire 400 job_paid world_smtp_down))"
  have b: "\<not> bad_header mail0"
    by (simp add: bad_header_def has_line_break_def mail0_def)
  have f: "email job_paid \<noteq> []" "smtp_up world_smtp_down" "\<not> smtp_ok world_smtp_down mail0"
    "outbox world_smtp_down = []" "trace world_smtp_down = []"
    by (simp_all add: job_paid_def job0_def world_smtp_down_def world0_def)
  have e0: "fst (expire 400 job_paid world_smtp_down) = Returned True
      \<and> fst (snd (expire 400 job_paid world_smtp_down)) = job_paid\<lparr>expired_at := Some 400\<rparr>
      \<and> trace ?w = [QueryFirstSiteConfig (site_id (site job_paid)),
            SaveJob (job_paid\<lparr>expired_at := Some 400\<rparr>), SendMail mail0]"
    by (simp add: expire_eval sample_data)
  then have e: "expire 400 job_paid world_smtp_down =
      (Returned True, job_paid\<lparr>expired_at := Some 400\<rparr>, ?w)"
    by (simp add: prod_eq_iff)
  have s: "SendMail mail0 \<in> set (drop (length (trace world_smtp_down)) (trace ?w))"
    using e0 f by simp
  have "outbox ?w = (if smtp_up world_smtp_down \<and> \<not> bad_header mail0
      \<and> smtp_ok world_smtp_down mail0 then outbox world_smtp_down @ [mail0]
      else outbox world_smtp_down)"
    using expire_mail_contents [OF e s] by blast
  then have o: "outbox ?w = []"
    using f by simp
  have a: "from_email mail0 = admin_email sc0"
    by (simp add: mail0_def sc0_def)
  let ?v = "snd (snd (expire 400 job_paid world0))"
  have g: "smtp_up world0" "smtp_ok world0 mail0" "outbox world0 = []" "trace world0 = []"
    by (simp_all add: world0_def)
  have e': "expire 400 job_paid world0 =
      (Returned True, job_paid\<lparr>expired_at := Some 400\<rparr>, ?v)"
    by (simp add: expire_job_paid_world0)
  have s': "SendMail mail0 \<in> set (drop (length (trace world0)) (trace ?v))"
    using g by (simp add: expire_job_paid_world0)
  have "outbox ?v = (if smtp_up world0 \<and> \<not> bad_header mail0 \<and> smtp_ok world0 mail0
      then outbox world0 @ [mail0] else outbox world0)"
    using expire_mail_contents [OF e' s'] by blast
  then have o': "outbox ?v = [mail0]"
    using g b by simp
  show ?thesis
    using e s f(3) a o g(2) o' by blast
qed

text \<open>
  C8 as stated fails for the sender: when the admin address of the site's first
  SiteConfig is empty, the message handed to the mail backend carries the default
  sender, not that address.
\<close>

theorem expire_mail_sender_counterexample:
  "paid_at job_paid \<noteq> None \<and> expired_at job_paid = None
   \<and> siteconfig_set (site job_paid) world_blank_admin = [sc_blank]
   \<and> SendMail \<lparr>subject = ''Your Example job has expired'',
                body = ''job_board/emails/expired.txt:Engineer'',
                from_email = ''webmaster@localhost'',
                recipient_list = [''hr@corp.test'']\<rparr>
       \<in> set (trace (snd (snd (expire 400 job_paid world_blank_admin))))
   \<and> admin_email sc_blank \<noteq> ''webmaster@localhost''"
proof -
  have 1: "paid_at job_paid \<noteq> None \<and> expired_at job_paid = None"
    by (simp add: job_paid_def job0_def)
  have 2: "siteconfig_set (site job_paid) world_blank_admin = [sc_blank]"
    by (simp add: siteconfig_set_def job_paid_def job0_def world_blank_admin_def world0_def
        site0_def sc_other_def sc_blank_def)
  have 3: "mail0\<lparr>from_email := ''webmaster@localhost''\<rparr> =
      \<lparr>subject = ''Your Example job has expired'',
       body = ''job_board/emails/expired.txt:Engineer'',
       from_email = ''webmaster@localhost'', recipient_list = [''hr@corp.test'']\<rparr>"
    by (simp add: mail0_def)
  have 4: "admin_email sc_blank \<noteq> ''webmaster@localhost''"
    by (simp add: sc_blank_def)
  show ?thesis
    using 1 2 4 expire_job_paid_blank_admin unfolding 3 by simp
qed

subsection \<open>Display of the country\<close>

text \<open>
  C7. \<open>format_country\<close> computes a string from the job and changes nothing: it is a function
  of the job's \<open>country\<close> and \<open>location\<close> alone. It returns the country's name when a
  country is set; otherwise \<^verbatim>\<open>Anywhere*\<close> when the location is not empty; otherwise
  \<^verbatim>\<open>Anywhere\<close>.
\<close>

theorem format_country_priority:
  "(\<forall>c. country j = Some c \<longrightarrow> format_country j = country_name c)
   \<and> (country j = None \<and> location j \<noteq> [] \<longrightarrow> format_country j = ''Anywhere*'')
   \<and> (country j = None \<and> location j = [] \<longrightarrow> format_country j = ''Anywhere'')
   \<and> (\<forall>k. country k = country j \<and> location k = location j
          \<longrightarrow> format_country k = format_country j)"
  by (simp add: format_country_def split: option.splits)

theorem format_country_priority_witness:
  "format_country (job0\<lparr>country := Some \<lparr>country_name = ''France''\<rparr>\<rparr>) = ''France''
   \<and> country job0 = None \<and> location job0 = ''EU timezone''
   \<and> format_country job0 = ''Anywhere*''
   \<and> format_country (job0\<lparr>location := []\<rparr>) = ''Anywhere''
   \<and> format_country (job_paid\<lparr>title := ''Other''\<rparr>) = format_country job0"
proof -
  have 1: "format_country (job0\<lparr>country := Some \<lparr>country_name = ''France''\<rparr>\<rparr>) = ''France''"
    using format_country_priority
      [where j = "job0\<lparr>country := Some \<lparr>country_name = ''France''\<rparr>\<rparr>", THEN conjunct1]
    by simp
  have 2: "country job0 = None \<and> location job0 = ''EU timezone''"
    by (simp add: job0_def)
  have 3: "format_country job0 = ''Anywhere*''"
    using 2 format_country_priority [where j = job0, THEN conjunct2, THEN conjunct1]
    by simp
  have 4: "format_country (job0\<lparr>location := []\<rparr>) = ''Anywhere''"
    using 2 format_country_priority
      [where j = "job0\<lparr>location := []\<rparr>", THEN conjunct2, THEN conjunct2, THEN conjunct1]
    by simp
  have 5: "format_country (job_paid\<lparr>title := ''Other''\<rparr>) = format_country job0"
    using format_country_priority
      [where j = job0, THEN conjunct2, THEN conjunct2, THEN conjunct2, rule_format,
       of "job_paid\<lparr>title := ''Other''\<rparr>"]
    by (simp add: job_paid_def)
  show ?thesis
    using 1 2 3 4 5 by blast
qed

subsection \<open>The lifecycle over sequences of calls\<close>

lemma activate_job:
  "fst (snd (activate now j w)) = (if paid_at j = None then j\<lparr>paid_at := Some now\<rparr> else j)"
  by (simp add: activate_def Let_def)

lemma expire_job:
  "fst (snd (expire now j w)) =
     (if paid_at j \<noteq> None \<and> expired_at j = None then j\<lparr>expired_at := Some now\<rparr> else j)"
  by (cases "siteconfig_set (site j) w") (auto simp: expire_unfold expire_noop Let_def)

lemma step_job:
  "fst (step c (j, w)) =
     (case c of
        Activate t \<Rightarrow> (if paid_at j = None then j\<lparr>paid_at := Some t\<rparr> else j)
      | Expire t \<Rightarrow>
          (if paid_at j \<noteq> None \<and> expired_at j = None then j\<lparr>expired_at := Some t\<rparr> else j))"
  by (cases c) (simp_all add: activate_job expire_job)

lemma step_keeps_invariant:
  assumes "expired_at j \<noteq> None \<longrightarrow> paid_at j \<noteq> None"
  shows "expired_at (fst (step c (j, w))) \<noteq> None \<longrightarrow> paid_at (fst (step c (j, w))) \<noteq> None"
  using assms by (simp add: step_job split: call.splits)

lemma run_keeps_invariant:
  assumes "expired_at j \<noteq> None \<longrightarrow> paid_at j \<noteq> None"
  shows "expired_at (fst (run cs (j, w))) \<noteq> None \<longrightarrow> paid_at (fst (run cs (j, w))) \<noteq> None"
  using assms
proof (induction cs arbitrary: j w)
  case Nil
  then show ?case by simp
next
  case (Cons c cs)
  obtain j1 w1 where s: "step c (j, w) = (j1, w1)"
    by (cases "step c (j, w)")
  have "expired_at j1 \<noteq> None \<longrightarrow> paid_at j1 \<noteq> None"
    using step_keeps_invariant [OF Cons.prems, of c w] s by simp
  then show ?case
    using Cons.IH [of j1 w1] s by simp
qed

lemma step_created_at: "created_at (fst (step c (j, w))) = created_at j"
  by (simp add: step_job split: call.splits)

lemma run_created_at: "created_at (fst (run cs (j, w))) = created_at j"
proof (induction cs arbitrary: j w)
  case Nil
  then show ?case by simp
next
  case (Cons c cs)
  obtain j1 w1 where s: "step c (j, w) = (j1, w1)"
    by (cases "step c (j, w)")
  then have "created_at j1 = created_at j"
    using step_created_at [of c j w] by simp
  then show ?case
    using Cons.IH [of j1 w1] s by simp
qed

text \<open>
  C4. Take a job with \<open>paid_at\<close> and \<open>expired_at\<close> both unset and any sequence of
  \<open>activate\<close> and \<open>expire\<close> calls, each at any time and whatever the earlier calls
  returned or raised. In the job reached, \<open>expired_at\<close> is set only if \<open>paid_at\<close> is.
  One more call leaves a \<open>paid_at\<close> that is set (and an \<open>expired_at\<close> that is set) as it
  is, and either keeps the job's phase or moves it one step along
  Unpaid, Paid, Expired; it never moves it back or from Unpaid to Expired.
\<close>

theorem lifecycle_is_linear:
  assumes "paid_at j0 = None" and "expired_at j0 = None"
    and "run cs (j0, w0) = (j, w)" and "step c (j, w) = (j', w')"
  shows "(expired_at j \<noteq> None \<longrightarrow> paid_at j \<noteq> None)
         \<and> (paid_at j \<noteq> None \<longrightarrow> paid_at j' = paid_at j)
         \<and> (expired_at j \<noteq> None \<longrightarrow> expired_at j' = expired_at j)
         \<and> (phase_of j' = phase_of j \<or> lifecycle_next (phase_of j) (phase_of j'))
         \<and> \<not> lifecycle_next (phase_of j') (phase_of j)"
proof -
  have inv: "expired_at j \<noteq> None \<longrightarrow> paid_at j \<noteq> None"
    using run_keeps_invariant [of j0 cs w0] assms(1-3) by simp
  show ?thesis
  proof (cases c)
    case (Activate t)
    then have "j' = (if paid_at j = None then j\<lparr>paid_at := Some t\<rparr> else j)"
      using assms(4) activate_job [of t j w] by simp
    then show ?thesis
      using inv by (cases "paid_at j"; cases "expired_at j"; simp add: phase_of_def)
  next
    case (Expire t)
    then have "j' = (if paid_at j \<noteq> None \<and> expired_at j = None
        then j\<lparr>expired_at := Some t\<rparr> else j)"
      using assms(4) expire_job [of t j w] by simp
    then show ?thesis
      using inv by (cases "paid_at j"; cases "expired_at j"; simp add: phase_of_def)
  qed
qed

theorem lifecycle_is_linear_witness:
  "paid_at job0 = None \<and> expired_at job0 = None
   \<and> run [Expire 150, Activate 200] (job0, world0)
       = (job_paid, snd (run [Expire 150, Activate 200] (job0, world0)))
   \<and> step (Expire 300) (job_paid, snd (run [Expire 150, Activate 200] (job0, world0)))
       = (job_expired,
          snd (step (Expire 300) (job_paid, snd (run [Expire 150, Activate 200] (job0, world0)))))
   \<and> phase_of job0 = Unpaid \<and> phase_of job_paid = Paid \<and> phase_of job_expired = Expired
   \<and> lifecycle_next (phase_of job_paid) (phase_of job_expired)
   \<and> paid_at job_expired = paid_at job_paid"
proof -
  let ?w = "snd (run [Expire 150, Activate 200] (job0, world0))"
  have h: "paid_at job0 = None" "expired_at job0 = None"
    by (simp_all add: job0_def)
  have "fst (run [Expire 150, Activate 200] (job0, world0)) = job_paid"
    by (simp add: expire_noop activate_job h job_paid_def)
  then have a: "run [Expire 150, Activate 200] (job0, world0) = (job_paid, ?w)"
    by (simp add: prod_eq_iff)
  have "fst (step (Expire 300) (job_paid, ?w)) = job_expired"
    unfolding step_job by (simp add: job_paid_def job_expired_def job0_def)
  then have b: "step (Expire 300) (job_paid, ?w)
      = (job_expired, snd (step (Expire 300) (job_paid, ?w)))"
    by (simp add: prod_eq_iff)
  have c: "phase_of job0 = Unpaid \<and> phase_of job_paid = Paid \<and> phase_of job_expired = Expired
      \<and> lifecycle_next (phase_of job_paid) (phase_of job_expired)
      \<and> paid_at job_expired = paid_at job_paid"
    using lifecycle_is_linear [OF h a b]
    by (simp add: phase_of_def job_paid_def job_expired_def job0_def)
  show ?thesis
    using h a b c by blast
qed

subsection \<open>What the lifecycle calls leave alone\<close>

lemma step_row_in_sync:
  assumes "jobs w (job_id j) = Some j"
  shows "job_id (fst (step c (j, w))) = job_id j
         \<and> jobs (snd (step c (j, w))) (job_id j) = Some (fst (step c (j, w)))"
proof (cases c)
  case (Activate t)
  then show ?thesis
    using assms by (simp add: activate_def save_def Let_def)
next
  case (Expire t)
  show ?thesis
  proof (cases "paid_at j \<noteq> None \<and> expired_at j = None")
    case False
    then have "expire t j w = (Returned False, j, w)"
      by (auto simp: expire_noop)
    then show ?thesis
      using assms Expire by simp
  next
    case True
    then show ?thesis
      using Expire
      by (cases "siteconfig_set (site j) w") (simp_all add: expire_unfold Let_def)
  qed
qed

lemma run_row_in_sync:
  assumes "jobs w (job_id j) = Some j"
  shows "job_id (fst (run cs (j, w))) = job_id j
         \<and> jobs (snd (run cs (j, w))) (job_id j) = Some (fst (run cs (j, w)))"
  using assms
proof (induction cs arbitrary: j w)
  case Nil
  then show ?case by simp
next
  case (Cons c cs)
  obtain j1 w1 where s: "step c (j, w) = (j1, w1)"
    by (cases "step c (j, w)")
  have k: "job_id j1 = job_id j" and r: "jobs w1 (job_id j1) = Some j1"
    using step_row_in_sync [OF Cons.prems, of c] s by simp_all
  show ?case
    using Cons.IH [OF r] s k by simp
qed

text \<open>
  C10. \<open>created_at\<close> is set at the creation of the job, to the current time, in the
  instance and in its row; after any sequence of \<open>activate\<close> and \<open>expire\<close> calls on the
  created job, the instance and the row still carry that time. No other operation of the
  code assigns it. \<open>activate\<close> changes no field of a job other than \<open>paid_at\<close> and
  \<open>expire\<close> none other than \<open>expired_at\<close>; a call that returns false changes neither the
  job nor the world; a call that does change the job writes exactly the job's own row,
  and the row then equals the job.
\<close>

theorem lifecycle_calls_frame:
  "created_at (fst (create t k j0 w0)) = t
   \<and> jobs (snd (create t k j0 w0)) k = Some (fst (create t k j0 w0))
   \<and> created_at (fst (run cs (create t k j0 w0))) = t
   \<and> jobs (snd (run cs (create t k j0 w0))) k = Some (fst (run cs (create t k j0 w0)))
   \<and> (case activate now j w of (r, j', w') \<Rightarrow>
      j' = j\<lparr>paid_at := paid_at j'\<rparr>
      \<and> (r = Returned False \<longrightarrow> j' = j \<and> w' = w)
      \<and> (r \<noteq> Returned False \<longrightarrow> jobs w' = (jobs w)(job_id j := Some j')))
   \<and> (case expire now j w of (r, j', w') \<Rightarrow>
      j' = j\<lparr>expired_at := expired_at j'\<rparr>
      \<and> (r = Returned False \<longrightarrow> j' = j \<and> w' = w)
      \<and> (r \<noteq> Returned False \<longrightarrow> jobs w' = (jobs w)(job_id j := Some j')))
   \<and> created_at (fst (snd (activate now j w))) = created_at j
   \<and> created_at (fst (snd (expire now j w))) = created_at j
   \<and> created_at (fst (run cs (j, w))) = created_at j"
proof -
  obtain j1 w1 where n: "create t k j0 w0 = (j1, w1)"
    by (cases "create t k j0 w0")
  then have n1: "created_at j1 = t" "job_id j1 = k" "jobs w1 k = Some j1"
    by (auto simp: create_def Let_def)
  have n2: "created_at (fst (run cs (j1, w1))) = t"
    using run_created_at [of cs j1 w1] n1 by simp
  have n3: "jobs (snd (run cs (j1, w1))) k = Some (fst (run cs (j1, w1)))"
    using run_row_in_sync [of w1 j1 cs] n1 by simp
  have a: "case activate now j w of (r, j', w') \<Rightarrow>
      j' = j\<lparr>paid_at := paid_at j'\<rparr>
      \<and> (r = Returned False \<longrightarrow> j' = j \<and> w' = w)
      \<and> (r \<noteq> Returned False \<longrightarrow> jobs w' = (jobs w)(job_id j := Some j'))"
    by (simp add: activate_def save_def Let_def)
  have e: "case expire now j w of (r, j', w') \<Rightarrow>
      j' = j\<lparr>expired_at := expired_at j'\<rparr>
      \<and> (r = Returned False \<longrightarrow> j' = j \<and> w' = w)
      \<and> (r \<noteq> Returned False \<longrightarrow> jobs w' = (jobs w)(job_id j := Some j'))"
  proof (cases "paid_at j \<noteq> None \<and> expired_at j = None")
    case False
    then have "expire now j w = (Returned False, j, w)"
      by (auto simp: expire_noop)
    then show ?thesis by simp
  next
    case True
    then show ?thesis
      by (cases "siteconfig_set (site j) w") (simp_all add: expire_unfold Let_def)
  qed
  have c: "created_at (fst (snd (activate now j w))) = created_at j"
    "created_at (fst (snd (expire now j w))) = created_at j"
    by (simp_all add: activate_job expire_job)
  show ?thesis
    unfolding n using n1 n2 n3 a e c run_created_at [of cs j w] by simp
qed

theorem lifecycle_calls_frame_witness:
  "created_at (fst (create 150 8 job0 world0)) = 150
   \<and> created_at (fst (run [Activate 200, Expire 300] (create 150 8 job0 world0))) = 150
   \<and> map_option created_at
        (jobs (snd (run [Activate 200, Expire 300] (create 150 8 job0 world0))) 8) = Some 150
   \<and> fst (snd (activate 500 job0 world0)) = job0\<lparr>paid_at := Some 500\<rparr>
   \<and> fst (expire 400 job0 world0) = Returned False
   \<and> fst (snd (expire 400 job0 world0)) = job0
   \<and> snd (snd (expire 400 job0 world0)) = world0
   \<and> fst (activate 500 job_paid world0) = Returned False
   \<and> fst (snd (activate 500 job_paid world0)) = job_paid
   \<and> snd (snd (activate 500 job_paid world0)) = world0
   \<and> created_at (fst (run [Activate 200, Expire 300] (job0, world0))) = 100"
proof -
  let ?s = "run [Activate 200, Expire 300] (create 150 8 job0 world0)"
  have n: "created_at (fst (create 150 8 job0 world0)) = 150
      \<and> created_at (fst ?s) = 150 \<and> jobs (snd ?s) 8 = Some (fst ?s)"
    using lifecycle_calls_frame [where t = 150 and k = 8 and ?j0.0 = job0 and ?w0.0 = world0
      and cs = "[Activate 200, Expire 300]"]
    by blast
  then have 0: "map_option created_at (jobs (snd ?s) 8) = Some 150"
    by simp
  have 1: "fst (snd (activate 500 job0 world0)) = job0\<lparr>paid_at := Some 500\<rparr>"
    by (simp add: activate_job job0_def)
  have 2: "fst (expire 400 job0 world0) = Returned False"
    by (simp add: expire_noop job0_def)
  have 3: "fst (snd (expire 400 job0 world0)) = job0 \<and> snd (snd (expire 400 job0 world0)) = world0"
    using 2 lifecycle_calls_frame [where now = 400 and j = job0 and w = world0,
      THEN conjunct2, THEN conjunct2, THEN conjunct2, THEN conjunct2, THEN conjunct2,
      THEN conjunct1]
    by (simp add: case_prod_beta)
  have 4: "fst (activate 500 job_paid world0) = Returned False"
    by (simp add: activate_def job_paid_def)
  have 5: "fst (snd (activate 500 job_paid world0)) = job_paid
      \<and> snd (snd (activate 500 job_paid world0)) = world0"
    using 4 lifecycle_calls_frame [where now = 500 and j = job_paid and w = world0,
      THEN conjunct2, THEN conjunct2, THEN conjunct2, THEN conjunct2, THEN conjunct1]
    by (simp add: case_prod_beta)
  have "created_at (fst (run [Activate 200, Expire 300] (job0, world0))) = created_at job0"
    using lifecycle_calls_frame [where j = job0 and w = world0
      and cs = "[Activate 200, Expire 300]"]
    by blast
  then have 6: "created_at (fst (run [Activate 200, Expire 300] (job0, world0))) = 100"
    by (simp add: job0_def)
  show ?thesis
    using n 0 1 2 3 4 5 6 by blast
qed

subsection \<open>Provisioning of the SiteConfig\<close>

lemma get_or_create_fresh:
  assumes "siteconfig_set s w = []"
  shows "get_or_create s e w =
    (Returned (\<lparr>expire_after = 30, admin_email = e, sc_site = site_id s\<rparr>, True),
     w\<lparr>siteconfigs := siteconfigs w @
         [\<lparr>expire_after = 30, admin_email = e, sc_site = site_id s\<rparr>]\<rparr>)"
proof -
  have "\<forall>c \<in> set (siteconfigs w). sc_site c \<noteq> site_id s"
    using assms by (simp add: siteconfig_set_def filter_empty_conv)
  then have "filter (\<lambda>c. sc_site c = site_id s \<and> admin_email c = e) (siteconfigs w) = []"
    by (simp add: filter_empty_conv)
  then show ?thesis
    by (simp add: get_or_create_def Let_def)
qed

text \<open>
  C5. When the receiver runs for a created site (the \<^verbatim>\<open>created\<close> flag true, or absent)
  and no SiteConfig refers to that site, it returns normally and adds exactly one row to
  the SiteConfig table: afterwards the site has exactly one SiteConfig, whose
  \<open>admin_email\<close> is \<^verbatim>\<open>admin@\<close> followed by the site's domain and whose \<open>expire_after\<close> is
  the default 30.
\<close>

theorem generate_site_config_creates_default:
  assumes "kw_created kw \<noteq> Some False" and "kw_instance kw = Some s"
    and "siteconfig_set s w = []"
  shows "case generate_site_config kw w of (r, w') \<Rightarrow>
           r = Returned ()
           \<and> siteconfigs w' = siteconfigs w @
                [\<lparr>expire_after = 30, admin_email = ''admin@'' @ domain s, sc_site = site_id s\<rparr>]
           \<and> siteconfig_set s w' =
                [\<lparr>expire_after = 30, admin_email = ''admin@'' @ domain s, sc_site = site_id s\<rparr>]"
proof -
  have t: "(case kw_created kw of None \<Rightarrow> True | Some b \<Rightarrow> b)"
    using assms(1) by (cases "kw_created kw") auto
  have "generate_site_config kw w =
      (Returned (), w\<lparr>siteconfigs := siteconfigs w @
         [\<lparr>expire_after = 30, admin_email = ''admin@'' @ domain s, sc_site = site_id s\<rparr>]\<rparr>)"
    using t assms(2) by (simp add: generate_site_config_def get_or_create_fresh [OF assms(3)])
  moreover have "filter (\<lambda>c. sc_site c = site_id s) (siteconfigs w) = []"
    using assms(3) by (simp add: siteconfig_set_def)
  ultimately show ?thesis
    by (simp add: siteconfig_set_def)
qed

theorem generate_site_config_creates_default_witness:
  "siteconfig_set site0 world_no_config = []
   \<and> fst (generate_site_config \<lparr>kw_created = Some True, kw_instance = Some site0\<rparr>
        world_no_config) = Returned ()
   \<and> siteconfig_set site0
        (snd (generate_site_config \<lparr>kw_created = Some True, kw_instance = Some site0\<rparr>
          world_no_config))
       = [\<lparr>expire_after = 30, admin_email = ''admin@example.com'', sc_site = 1\<rparr>]"
proof -
  have h: "kw_created \<lparr>kw_created = Some True, kw_instance = Some site0\<rparr> \<noteq> Some False"
    "kw_instance \<lparr>kw_created = Some True, kw_instance = Some site0\<rparr> = Some site0"
    "siteconfig_set site0 world_no_config = []"
    by (simp_all add: siteconfig_set_def world_no_config_def world0_def site0_def sc_other_def)
  show ?thesis
    using h(3) generate_site_config_creates_default [OF h]
    by (simp add: case_prod_beta site0_def)
qed

text \<open>
  What does hold of repeated runs: once the receiver has returned, running it again with
  the same arguments changes nothing.
\<close>

lemma generate_site_config_repeat:
  assumes "generate_site_config kw w = (Returned (), w')"
  shows "generate_site_config kw w' = (Returned (), w')"
proof (cases "(case kw_created kw of None \<Rightarrow> True | Some b \<Rightarrow> b)")
  case False
  with assms show ?thesis
    by (simp add: generate_site_config_def)
next
  case True
  show ?thesis
  proof (cases "kw_instance kw")
    case None
    with True assms show ?thesis
      by (simp add: generate_site_config_def)
  next
    case (Some s)
    let ?p = "\<lambda>c. sc_site c = site_id s \<and> admin_email c = ''admin@'' @ domain s"
    show ?thesis
    proof (cases "filter ?p (siteconfigs w)")
      case Nil
      then have "w' = w\<lparr>siteconfigs := siteconfigs w @
          [\<lparr>expire_after = 30, admin_email = ''admin@'' @ domain s, sc_site = site_id s\<rparr>]\<rparr>"
        using True Some assms
        by (simp add: generate_site_config_def get_or_create_def Let_def)
      then have "filter ?p (siteconfigs w') =
          [\<lparr>expire_after = 30, admin_email = ''admin@'' @ domain s, sc_site = site_id s\<rparr>]"
        using Nil by simp
      then show ?thesis
        using True Some by (simp add: generate_site_config_def get_or_create_def)
    next
      case (Cons c cs)
      then have "cs = [] \<and> w' = w"
        using True Some assms
        by (cases cs) (simp_all add: generate_site_config_def get_or_create_def)
      then show ?thesis
        using assms by simp
    qed
  qed
qed

text \<open>
  C6 fails on the code. \<^verbatim>\<open>get_or_create\<close> is given the address as a lookup key, so a
  SiteConfig of the site whose address is no longer \<^verbatim>\<open>admin@\<close> plus the domain does
  not count as existing: the receiver, run for that site with the \<^verbatim>\<open>created\<close> flag true
  or absent, adds a second SiteConfig for the site.
\<close>

theorem generate_site_config_duplicates_edited:
  "siteconfig_set site0 world_edited = [sc_edited]
   \<and> fst (generate_site_config \<lparr>kw_created = None, kw_instance = Some site0\<rparr> world_edited)
       = Returned ()
   \<and> siteconfig_set site0
        (snd (generate_site_config \<lparr>kw_created = None, kw_instance = Some site0\<rparr> world_edited))
       = [sc_edited, sc0]
   \<and> siteconfig_set site0
        (snd (generate_site_config \<lparr>kw_created = Some True, kw_instance = Some site0\<rparr>
          world_edited))
       = [sc_edited, sc0]"
  by (simp add: generate_site_config_def get_or_create_def siteconfig_set_def Let_def
      world_edited_def world0_def site0_def sc_edited_def sc_other_def sc0_def)

end
